theory Spec2Isabelle
  imports Complex_Main "HOL-Library.Monad_Syntax"
begin

section \<open>The AD-HTC biomass simulator: the simulation function of app.py\<close>

text \<open>
  The repository has one function with domain logic, \<^verbatim>\<open>run_simulation\<close> of
  \<^verbatim>\<open>src/app.py\<close> (lines 201 to 360): straight-line arithmetic from ten scalar
  parameters to a dictionary of results. It is embedded here as one definition whose
  \<open>let\<close> bindings follow the assignments of the source, line by line and under the
  source's names.

  Python floats are modelled as \<^typ>\<open>real\<close>: arithmetic is exact, there is no rounding,
  no overflow, no NaN and no infinity. Every statement below is a statement about this
  exact-arithmetic reading of the code.
\<close>

subsection \<open>Data\<close>

text \<open>
  The ten parameters of \<^verbatim>\<open>run_simulation\<close>, under the parameter names of the
  source (line 201).
\<close>

record inputs =
  m_biomass :: real
  MC :: real
  LHV :: real
  boiler_p :: real
  boiler_T :: real
  cond_p :: real
  rp :: real
  eta_comp :: real
  eta_turbine :: real
  T3 :: real

text \<open>
  The returned dictionary (lines 314 to 358), one field per key. Two names are changed:
  the key \<^verbatim>\<open>"T3"\<close> is the field \<open>T3_state\<close>, since \<open>T3\<close> is already the
  parameter, and the nested dictionary \<^verbatim>\<open>"inputs"\<close> is the parameter record itself
  (its key \<^verbatim>\<open>"LHV_MJkg"\<close> is the field \<open>LHV\<close>).

  Python's \<^verbatim>\<open>**\<close> on floats gives a complex number when the base is negative and
  the exponent is not an integer. The three gas quantities and the heating energy are the
  only results that can receive such a value without an exception being raised (when
  \<^verbatim>\<open>T3\<close> is negative), so they are optional reals: \<open>None\<close> stands for a complex
  number.
\<close>

record results =
  m_dry :: real
  m_moisture :: real
  Q_in_Brayton :: real
  Q_in_Rankine :: real
  Q_fuel :: real
  Q_steam :: real
  W_comp :: real
  W_turb_brayton :: real
  W_turb_rankine :: real
  W_pump :: real
  W_net_brayton :: real
  eta_brayton :: real
  eta_rankine :: real
  eta_combined :: real
  brayton_power :: real
  rankine_power :: real
  total_power :: real
  fuel_consumption_kg_hr :: real
  useful_work :: real
  losses :: real
  gas_A :: "real option"
  gas_B :: "real option"
  methane :: "real option"
  heating_energy :: "real option"
  T1 :: real
  T2 :: real
  T3_state :: real
  T4 :: real
  P1 :: real
  P2 :: real
  h1 :: real
  h2 :: real
  h3 :: real
  h4 :: real
  inputs :: inputs

text \<open>The exceptions the function can raise.\<close>

datatype py_error = ZeroDivisionError | TypeError

subsection \<open>Python's float power\<close>

text \<open>
  \<^verbatim>\<open>x ** y\<close> for floats \<open>x\<close> and a non-integer \<open>y\<close>: a float when \<open>x\<close> is not
  negative (\<^verbatim>\<open>0.0 ** y\<close> is \<^verbatim>\<open>0.0\<close> for positive \<open>y\<close>, as \<open>0 powr y = 0\<close>),
  a complex number otherwise. Every exponent in the function is a positive non-integer.
\<close>

definition py_pow :: "real \<Rightarrow> real \<Rightarrow> real option" where
  "py_pow x y = (if x < 0 then None else Some (x powr y))"

subsection \<open>The simulation function\<close>

text \<open>
  Lines 201 to 360. The three places where the source can raise are branches of the model,
  in the order of the source:
  \<^item> line 226 divides by \<^verbatim>\<open>eta_comp\<close>;
  \<^item> line 242 divides \<^verbatim>\<open>1\<close> by \<^verbatim>\<open>rp\<close>;
  \<^item> line 251 compares \<^verbatim>\<open>Qin_total\<close> with \<^verbatim>\<open>0\<close>, which is a complex number when
    \<^verbatim>\<open>rp\<close> is negative (through \<^verbatim>\<open>rp ** ((gamma - 1) / gamma)\<close> of line 224), and
    Python refuses to order complex numbers.
  Between line 224 and line 251 nothing is observable but these exceptions, so the values
  bound there are only read in the branch where \<^verbatim>\<open>rp\<close> is positive, and there
  \<^verbatim>\<open>**\<close> is \<open>powr\<close>. The other divisions have constant non-zero divisors or are
  guarded by the source's own conditional expressions, which are the \<open>if\<close>s of the model.
  The reassignment of \<^verbatim>\<open>h4\<close> at lines 275 and 276 binds the second name \<open>h4'\<close>.
\<close>

definition run_simulation :: "inputs \<Rightarrow> py_error + results" where
  "run_simulation i =
    (let m_dry = m_biomass i * (1 - MC i);
         m_moisture = m_biomass i * MC i;
         LHV_kJ = LHV i * 1000.0;
         Q_in_Brayton = m_dry * LHV_kJ;
         gamma = 1.4;
         Cp = 1.005;
         R = (0.287::real);
         T1 = 298.15;
         P1 = 0.1013;
         P2 = P1 * rp i;
         T2s = T1 * (rp i) powr ((gamma - 1) / gamma)
     in if eta_comp i = 0 then Inl ZeroDivisionError else
     let T2 = T1 + (T2s - T1) / eta_comp i;
         W_comp_per_kg = Cp * (T2 - T1);
         AFR = 20.0;
         working_flow = max 1.0 (AFR * m_dry);
         W_comp = W_comp_per_kg * working_flow;
         Qin_per_kg = Cp * (T3 i - T2);
         Qin_total = Qin_per_kg * working_flow
     in if rp i = 0 then Inl ZeroDivisionError else
     let T4s = T3 i * (1 / rp i) powr ((gamma - 1) / gamma);
         T4 = T3 i - eta_turbine i * (T3 i - T4s);
         W_turbine_per_kg = Cp * (T3 i - T4);
         W_turbine_brayton = W_turbine_per_kg * working_flow;
         W_net_brayton = W_turbine_brayton - W_comp
     in if rp i < 0 then Inl TypeError else
     let eta_brayton = (if Qin_total > 0 then W_net_brayton / Qin_total else 0.0);
         v_f = 0.00101;
         W_pump_per_kg = v_f * (boiler_p i - cond_p i) * 1000.0;
         h1 = (if cond_p i \<le> 0.01 then 191.8
               else if cond_p i \<le> 0.02 then 251.4
               else 300.0);
         h2 = h1 + W_pump_per_kg;
         h3 = 2800.0 + 2.0 * (boiler_T i - 500.0);
         delta_h_isentropic = 1200.0 * (1.0 - 0.03 * (boiler_p i - 8.0));
         W_turbine_rankine_per_kg_isentropic = delta_h_isentropic;
         W_turbine_rankine_per_kg_actual =
           W_turbine_rankine_per_kg_isentropic * eta_turbine i;
         h4 = h3 - W_turbine_rankine_per_kg_actual;
         h4' = (if h4 < h1 then h1 + 50.0 else h4);
         Q_in_Rankine = m_moisture * (h3 - h2);
         W_turbine_rankine = m_moisture * (h3 - h4');
         W_pump = W_pump_per_kg * m_moisture;
         eta_rankine =
           (if Q_in_Rankine > 0 then (W_turbine_rankine - W_pump) / Q_in_Rankine else 0.0);
         total_input_energy = Q_in_Brayton + Q_in_Rankine;
         total_output_work = max 0.0 W_net_brayton + max 0.0 W_turbine_rankine;
         eta_combined =
           (if total_input_energy > 0 then total_output_work / total_input_energy else 0.0);
         Q_fuel = Q_in_Brayton;
         Q_steam = Q_in_Rankine;
         useful_work = total_output_work;
         losses = Q_fuel + Q_steam - useful_work;
         gas_A = do {
           a \<leftarrow> py_pow (rp i / 8.0) 0.7;
           b \<leftarrow> py_pow (T3 i / 1200.0) 0.5;
           Some (0.568 * a * b) };
         gas_B = do {
           a \<leftarrow> py_pow (rp i / 8.0) 0.8;
           b \<leftarrow> py_pow (T3 i / 1200.0) 0.6;
           Some (1.716 * a * b) };
         methane = do {
           a \<leftarrow> py_pow (T3 i / 1200.0) 0.9;
           b \<leftarrow> py_pow (eta_combined / 0.5) 0.3;
           Some (1.029 * a * b) };
         heating_energy = do {
           g \<leftarrow> gas_B;
           Some (928106.3 * (eta_combined / 0.6) * (g / 1.5)) };
         brayton_power = max 0.0 W_net_brayton;
         rankine_power = max 0.0 (W_turbine_rankine - W_pump);
         total_power = brayton_power + rankine_power;
         m_fuel_kg_s = (if LHV_kJ > 0 then Q_in_Brayton / LHV_kJ else 0.0);
         fuel_consumption_kg_hr = m_fuel_kg_s * 3600.0
     in Inr \<lparr>
          m_dry = m_dry,
          m_moisture = m_moisture,
          Q_in_Brayton = Q_in_Brayton,
          Q_in_Rankine = Q_in_Rankine,
          Q_fuel = Q_fuel,
          Q_steam = Q_steam,
          W_comp = W_comp,
          W_turb_brayton = W_turbine_brayton,
          W_turb_rankine = W_turbine_rankine,
          W_pump = W_pump,
          W_net_brayton = W_net_brayton,
          eta_brayton = eta_brayton,
          eta_rankine = eta_rankine,
          eta_combined = eta_combined,
          brayton_power = brayton_power,
          rankine_power = rankine_power,
          total_power = total_power,
          fuel_consumption_kg_hr = fuel_consumption_kg_hr,
          useful_work = useful_work,
          losses = losses,
          gas_A = gas_A,
          gas_B = gas_B,
          methane = methane,
          heating_energy = heating_energy,
          T1 = T1, T2 = T2, T3_state = T3 i, T4 = T4,
          P1 = P1, P2 = P2,
          h1 = h1, h2 = h2, h3 = h3, h4 = h4',
          inputs = i \<rparr>)"

subsection \<open>The input domain\<close>

text \<open>
  The ranges of the ten sidebar widgets (lines 181 to 194), which are the only caller's
  source of arguments. The steps of the widgets are not modelled: every real in the range
  is admitted.
\<close>

definition sidebar_range :: "inputs \<Rightarrow> bool" where
  "sidebar_range i \<longleftrightarrow>
     0.01 \<le> m_biomass i \<and> m_biomass i \<le> 1000 \<and>
     0 \<le> MC i \<and> MC i \<le> 1 \<and>
     5 \<le> LHV i \<and> LHV i \<le> 30 \<and>
     0.1 \<le> boiler_p i \<and> boiler_p i \<le> 30 \<and>
     200 \<le> boiler_T i \<and> boiler_T i \<le> 700 \<and>
     0.001 \<le> cond_p i \<and> cond_p i \<le> 1 \<and>
     0.5 \<le> eta_turbine i \<and> eta_turbine i \<le> 1 \<and>
     2 \<le> rp i \<and> rp i \<le> 20 \<and>
     0.5 \<le> eta_comp i \<and> eta_comp i \<le> 1 \<and>
     800 \<le> T3 i \<and> T3 i \<le> 2000"

text \<open>
  The documented domain of the specification's data model. It differs from the widgets
  in one place: the mass flow is any positive real up to 1000, not at least 0.01.
\<close>

definition in_domain :: "inputs \<Rightarrow> bool" where
  "in_domain i \<longleftrightarrow>
     0 < m_biomass i \<and> m_biomass i \<le> 1000 \<and>
     0 \<le> MC i \<and> MC i \<le> 1 \<and>
     5 \<le> LHV i \<and> LHV i \<le> 30 \<and>
     0.1 \<le> boiler_p i \<and> boiler_p i \<le> 30 \<and>
     200 \<le> boiler_T i \<and> boiler_T i \<le> 700 \<and>
     0.001 \<le> cond_p i \<and> cond_p i \<le> 1 \<and>
     0.5 \<le> eta_turbine i \<and> eta_turbine i \<le> 1 \<and>
     2 \<le> rp i \<and> rp i \<le> 20 \<and>
     0.5 \<le> eta_comp i \<and> eta_comp i \<le> 1 \<and>
     800 \<le> T3 i \<and> T3 i \<le> 2000"

text \<open>The default values of the widgets, which are also the specification's example.\<close>

definition default_inputs :: inputs where
  "default_inputs = \<lparr>
     m_biomass = 10.0, MC = 0.25, LHV = 18.0,
     boiler_p = 8.0, boiler_T = 500.0, cond_p = 0.01,
     rp = 8.0, eta_comp = 0.88, eta_turbine = 0.85, T3 = 1200.0 \<rparr>"

subsection \<open>Local variables of the function that the claims name\<close>

text \<open>
  Four local variables are read by the claims but are not keys of the returned dictionary.
  Each is written here over the parameters and the returned fields, with the right-hand
  side of its assignment in the source: \<^verbatim>\<open>working_flow\<close> (line 232),
  \<^verbatim>\<open>Qin_total\<close> (lines 238 and 239), \<^verbatim>\<open>h4\<close> before the correction of line 275
  (lines 269 to 272) and \<^verbatim>\<open>total_input_energy\<close> (line 287). The lemmas of the next
  sections tie them to the fields that the function computes from them.
\<close>

definition working_flow :: "results \<Rightarrow> real" where
  "working_flow r = max 1.0 (20.0 * m_dry r)"

definition Qin_total :: "inputs \<Rightarrow> results \<Rightarrow> real" where
  "Qin_total i r = 1.005 * (T3 i - T2 r) * working_flow r"

definition h4_uncorrected :: "inputs \<Rightarrow> results \<Rightarrow> real" where
  "h4_uncorrected i r =
     h3 r - 1200.0 * (1.0 - 0.03 * (boiler_p i - 8.0)) * eta_turbine i"

definition total_input_energy :: "results \<Rightarrow> real" where
  "total_input_energy r = Q_in_Brayton r + Q_in_Rankine r"

subsection \<open>Concrete inputs\<close>

text \<open>
  The default inputs with the mass flow at the minimum of its widget. The dry mass is then
  0.0075 kg/s, and the working flow of the gas cycle is the floor of 1 kg/s of line 232.
\<close>

definition min_flow_inputs :: inputs where
  "min_flow_inputs = default_inputs \<lparr> m_biomass := 0.01 \<rparr>"

text \<open>
  The default inputs with the highest pressure ratio and the lowest compressor and turbine
  efficiencies of the widgets: the compressor takes more work than the turbine gives.
\<close>

definition hot_compressor_inputs :: inputs where
  "hot_compressor_inputs =
     default_inputs \<lparr> rp := 20, eta_comp := 0.5, eta_turbine := 0.5 \<rparr>"

text \<open>
  The default inputs with a boiler temperature far below the widget's range, so that
  the turbine outlet enthalpy computed at line 272 is below the condenser enthalpy.
\<close>

definition cold_boiler_inputs :: inputs where
  "cold_boiler_inputs = default_inputs \<lparr> boiler_T := - 1000 \<rparr>"

text \<open>
  Inputs outside the widgets' ranges at which the four guarded denominators are all
  non-positive: no mass flow, no heating value, and a turbine inlet colder than the
  compressor outlet.
\<close>

definition zero_denominator_inputs :: inputs where
  "zero_denominator_inputs = \<lparr>
     m_biomass = 0, MC = 0, LHV = 0,
     boiler_p = 8.0, boiler_T = 500.0, cond_p = 0.01,
     rp = 1, eta_comp = 1, eta_turbine = 1, T3 = 0 \<rparr>"

text \<open>
  The default inputs with a mass flow of \<open>2 ^ - 1040\<close> kg/s, about \<open>8.5e-314\<close>: a
  positive (subnormal) double, so an input of the documented domain, though below the
  minimum of the widget.
\<close>

definition tiny_flow_inputs :: inputs where
  "tiny_flow_inputs = default_inputs \<lparr> m_biomass := 1 / (65536 * 2 ^ 1024) \<rparr>"

subsection \<open>The domain and the concrete inputs\<close>

lemma sidebar_range_in_domain: "sidebar_range i \<Longrightarrow> in_domain i"
  by (simp add: sidebar_range_def in_domain_def)

lemma default_inputs_sidebar_range: "sidebar_range default_inputs"
  by (simp add: sidebar_range_def default_inputs_def)

lemma default_inputs_in_domain: "in_domain default_inputs"
  by (simp add: in_domain_def default_inputs_def)

lemma min_flow_sidebar_range: "sidebar_range min_flow_inputs"
  by (simp add: sidebar_range_def min_flow_inputs_def default_inputs_def)

lemma hot_compressor_sidebar_range: "sidebar_range hot_compressor_inputs"
  by (simp add: sidebar_range_def hot_compressor_inputs_def default_inputs_def)

text \<open>
  The power \<open>2 ^ 1024\<close> is kept as it is written in the proofs about
  \<open>tiny_flow_inputs\<close>: only \<open>1 \<le> 2 ^ 1024\<close> is used of it.
\<close>

lemma tiny_flow_fields:
  "m_biomass tiny_flow_inputs = 1 / (65536 * 2 ^ 1024)"
  "MC tiny_flow_inputs = 0.25" "LHV tiny_flow_inputs = 18"
  "boiler_p tiny_flow_inputs = 8" "boiler_T tiny_flow_inputs = 500"
  "cond_p tiny_flow_inputs = 0.01" "rp tiny_flow_inputs = 8"
  "eta_comp tiny_flow_inputs = 0.88" "eta_turbine tiny_flow_inputs = 0.85"
  "T3 tiny_flow_inputs = 1200"
  unfolding tiny_flow_inputs_def default_inputs_def
  by (simp_all only: inputs.simps)

lemma tiny_flow_in_domain: "in_domain tiny_flow_inputs"
proof -
  define Q where "Q = (2::real) ^ 1024"
  have Q: "1 \<le> Q" unfolding Q_def by (rule one_le_power) simp
  have m: "m_biomass tiny_flow_inputs = 1 / (65536 * Q)"
    unfolding Q_def by (rule tiny_flow_fields)
  have "0 < 1 / (65536 * Q)" "1 / (65536 * Q) \<le> 1000"
    using Q by (simp_all add: field_simps)
  then show ?thesis unfolding in_domain_def m by (simp add: tiny_flow_fields(2-))
qed

subsection \<open>When the function raises and when it returns\<close>

lemma run_simulation_raises_eta_comp:
  "eta_comp i = 0 \<Longrightarrow> run_simulation i = Inl ZeroDivisionError"
  unfolding run_simulation_def Let_def by (simp only: if_True simp_thms)

lemma run_simulation_raises_rp_zero:
  "eta_comp i \<noteq> 0 \<Longrightarrow> rp i = 0 \<Longrightarrow> run_simulation i = Inl ZeroDivisionError"
  unfolding run_simulation_def Let_def by (simp only: if_True if_False simp_thms)

lemma run_simulation_raises_rp_negative:
  "eta_comp i \<noteq> 0 \<Longrightarrow> rp i < 0 \<Longrightarrow> run_simulation i = Inl TypeError"
  unfolding run_simulation_def Let_def
  by (simp only: if_True if_False less_imp_neq simp_thms)

lemma guards:
  assumes "run_simulation i = Inr r"
  shows "eta_comp i \<noteq> 0" "rp i \<noteq> 0" "\<not> rp i < 0"
proof -
  show a: "eta_comp i \<noteq> 0"
    using assms run_simulation_raises_eta_comp by fastforce
  show "rp i \<noteq> 0"
    using assms a run_simulation_raises_rp_zero by fastforce
  show "\<not> rp i < 0"
    using assms a run_simulation_raises_rp_negative by fastforce
qed

lemma run_simulation_returns_if:
  "eta_comp i \<noteq> 0 \<Longrightarrow> rp i \<noteq> 0 \<Longrightarrow> \<not> rp i < 0 \<Longrightarrow> \<exists>r. run_simulation i = Inr r"
  unfolding run_simulation_def Let_def
  by (simp only: if_False simp_thms sum.inject)

lemma run_simulation_returns:
  assumes "eta_comp i \<noteq> 0" "0 < rp i"
  shows "\<exists>r. run_simulation i = Inr r"
  using assms by (intro run_simulation_returns_if) auto

lemma in_domain_returns: "in_domain i \<Longrightarrow> \<exists>r. run_simulation i = Inr r"
  by (rule run_simulation_returns) (simp_all add: in_domain_def)

subsection \<open>The returned fields satisfy the assignments of the source\<close>

text \<open>
  One lemma per returned key that the claims read: when the function returns \<open>r\<close>, the
  field is what the corresponding assignment computes, written over the parameters and
  the fields bound before it. The exponent \<open>(gamma - 1) / gamma\<close> is \<open>2 / 7\<close>.
\<close>

lemma fld_m_dry:
  assumes "run_simulation i = Inr r"
  shows "m_dry r = m_biomass i * (1 - MC i)"
  using assms guards [OF assms]
  unfolding run_simulation_def Let_def working_flow_def Qin_total_def h4_uncorrected_def
    total_input_energy_def
  apply (simp only: if_False sum.inject)
  apply (erule subst)
  apply (simp only: results.select_convs)
  apply simp?
  done

lemma fld_m_moisture:
  assumes "run_simulation i = Inr r"
  shows "m_moisture r = m_biomass i * MC i"
  using assms guards [OF assms]
  unfolding run_simulation_def Let_def working_flow_def Qin_total_def h4_uncorrected_def
    total_input_energy_def
  apply (simp only: if_False sum.inject)
  apply (erule subst)
  apply (simp only: results.select_convs)
  apply simp?
  done

lemma fld_Q_in_Brayton:
  assumes "run_simulation i = Inr r"
  shows "Q_in_Brayton r = m_dry r * (LHV i * 1000)"
  using assms guards [OF assms]
  unfolding run_simulation_def Let_def working_flow_def Qin_total_def h4_uncorrected_def
    total_input_energy_def
  apply (simp only: if_False sum.inject)
  apply (erule subst)
  apply (simp only: results.select_convs)
  apply simp?
  done

lemma fld_T2:
  assumes "run_simulation i = Inr r"
  shows "T2 r = 298.15 + (298.15 * rp i powr (2 / 7) - 298.15) / eta_comp i"
  using assms guards [OF assms]
  unfolding run_simulation_def Let_def working_flow_def Qin_total_def h4_uncorrected_def
    total_input_energy_def
  apply (simp only: if_False sum.inject)
  apply (erule subst)
  apply (simp only: results.select_convs)
  apply simp?
  done

lemma fld_W_comp:
  assumes "run_simulation i = Inr r"
  shows "W_comp r = 1.005 * (T2 r - 298.15) * working_flow r"
  using assms guards [OF assms]
  unfolding run_simulation_def Let_def working_flow_def Qin_total_def h4_uncorrected_def
    total_input_energy_def
  apply (simp only: if_False sum.inject)
  apply (erule subst)
  apply (simp only: results.select_convs)
  apply simp?
  done

lemma fld_T4:
  assumes "run_simulation i = Inr r"
  shows "T4 r = T3 i - eta_turbine i * (T3 i - T3 i * (1 / rp i) powr (2 / 7))"
  using assms guards [OF assms]
  unfolding run_simulation_def Let_def working_flow_def Qin_total_def h4_uncorrected_def
    total_input_energy_def
  apply (simp only: if_False sum.inject)
  apply (erule subst)
  apply (simp only: results.select_convs)
  apply simp?
  done

lemma fld_W_turb_brayton:
  assumes "run_simulation i = Inr r"
  shows "W_turb_brayton r = 1.005 * (T3 i - T4 r) * working_flow r"
  using assms guards [OF assms]
  unfolding run_simulation_def Let_def working_flow_def Qin_total_def h4_uncorrected_def
    total_input_energy_def
  apply (simp only: if_False sum.inject)
  apply (erule subst)
  apply (simp only: results.select_convs)
  apply simp?
  done

lemma fld_W_net_brayton:
  assumes "run_simulation i = Inr r"
  shows "W_net_brayton r = W_turb_brayton r - W_comp r"
  using assms guards [OF assms]
  unfolding run_simulation_def Let_def working_flow_def Qin_total_def h4_uncorrected_def
    total_input_energy_def
  apply (simp only: if_False sum.inject)
  apply (erule subst)
  apply (simp only: results.select_convs)
  apply simp?
  done

lemma fld_eta_brayton:
  assumes "run_simulation i = Inr r"
  shows "eta_brayton r = (if Qin_total i r > 0 then W_net_brayton r / Qin_total i r else 0)"
  using assms guards [OF assms]
  unfolding run_simulation_def Let_def working_flow_def Qin_total_def h4_uncorrected_def
    total_input_energy_def
  apply (simp only: if_False sum.inject)
  apply (erule subst)
  apply (simp only: results.select_convs)
  apply simp?
  done

lemma fld_h1:
  assumes "run_simulation i = Inr r"
  shows "h1 r = (if cond_p i \<le> 0.01 then 191.8 else if cond_p i \<le> 0.02 then 251.4 else 300)"
  using assms guards [OF assms]
  unfolding run_simulation_def Let_def working_flow_def Qin_total_def h4_uncorrected_def
    total_input_energy_def
  apply (simp only: if_False sum.inject)
  apply (erule subst)
  apply (simp only: results.select_convs)
  apply simp?
  done

lemma fld_h2:
  assumes "run_simulation i = Inr r"
  shows "h2 r = h1 r + 0.00101 * (boiler_p i - cond_p i) * 1000"
  using assms guards [OF assms]
  unfolding run_simulation_def Let_def working_flow_def Qin_total_def h4_uncorrected_def
    total_input_energy_def
  apply (simp only: if_False sum.inject)
  apply (erule subst)
  apply (simp only: results.select_convs)
  apply simp?
  done

lemma fld_h3:
  assumes "run_simulation i = Inr r"
  shows "h3 r = 2800 + 2 * (boiler_T i - 500)"
  using assms guards [OF assms]
  unfolding run_simulation_def Let_def working_flow_def Qin_total_def h4_uncorrected_def
    total_input_energy_def
  apply (simp only: if_False sum.inject)
  apply (erule subst)
  apply (simp only: results.select_convs)
  apply simp?
  done

lemma fld_h4:
  assumes "run_simulation i = Inr r"
  shows "h4 r = (if h4_uncorrected i r < h1 r then h1 r + 50 else h4_uncorrected i r)"
  using assms guards [OF assms]
  unfolding run_simulation_def Let_def working_flow_def Qin_total_def h4_uncorrected_def
    total_input_energy_def
  apply (simp only: if_False sum.inject)
  apply (erule subst)
  apply (simp only: results.select_convs)
  apply simp?
  done

lemma fld_Q_in_Rankine:
  assumes "run_simulation i = Inr r"
  shows "Q_in_Rankine r = m_moisture r * (h3 r - h2 r)"
  using assms guards [OF assms]
  unfolding run_simulation_def Let_def working_flow_def Qin_total_def h4_uncorrected_def
    total_input_energy_def
  apply (simp only: if_False sum.inject)
  apply (erule subst)
  apply (simp only: results.select_convs)
  apply simp?
  done

lemma fld_W_turb_rankine:
  assumes "run_simulation i = Inr r"
  shows "W_turb_rankine r = m_moisture r * (h3 r - h4 r)"
  using assms guards [OF assms]
  unfolding run_simulation_def Let_def working_flow_def Qin_total_def h4_uncorrected_def
    total_input_energy_def
  apply (simp only: if_False sum.inject)
  apply (erule subst)
  apply (simp only: results.select_convs)
  apply simp?
  done

lemma fld_W_pump:
  assumes "run_simulation i = Inr r"
  shows "W_pump r = 0.00101 * (boiler_p i - cond_p i) * 1000 * m_moisture r"
  using assms guards [OF assms]
  unfolding run_simulation_def Let_def working_flow_def Qin_total_def h4_uncorrected_def
    total_input_energy_def
  apply (simp only: if_False sum.inject)
  apply (erule subst)
  apply (simp only: results.select_convs)
  apply simp?
  done

lemma fld_eta_rankine:
  assumes "run_simulation i = Inr r"
  shows "eta_rankine r = (if Q_in_Rankine r > 0 then (W_turb_rankine r - W_pump r) / Q_in_Rankine r else 0)"
  using assms guards [OF assms]
  unfolding run_simulation_def Let_def working_flow_def Qin_total_def h4_uncorrected_def
    total_input_energy_def
  apply (simp only: if_False sum.inject)
  apply (erule subst)
  apply (simp only: results.select_convs)
  apply simp?
  done

lemma fld_useful_work:
  assumes "run_simulation i = Inr r"
  shows "useful_work r = max 0.0 (W_net_brayton r) + max 0.0 (W_turb_rankine r)"
  using assms guards [OF assms]
  unfolding run_simulation_def Let_def working_flow_def Qin_total_def h4_uncorrected_def
    total_input_energy_def
  apply (simp only: if_False sum.inject)
  apply (erule subst)
  apply (simp only: results.select_convs)
  apply simp?
  done

lemma fld_eta_combined:
  assumes "run_simulation i = Inr r"
  shows "eta_combined r = (if total_input_energy r > 0 then useful_work r / total_input_energy r else 0.0)"
  using assms guards [OF assms]
  unfolding run_simulation_def Let_def working_flow_def Qin_total_def h4_uncorrected_def
    total_input_energy_def
  apply (simp only: if_False sum.inject)
  apply (erule subst)
  apply (simp only: results.select_convs)
  apply simp?
  done

lemma fld_brayton_power:
  assumes "run_simulation i = Inr r"
  shows "brayton_power r = max 0.0 (W_net_brayton r)"
  using assms guards [OF assms]
  unfolding run_simulation_def Let_def working_flow_def Qin_total_def h4_uncorrected_def
    total_input_energy_def
  apply (simp only: if_False sum.inject)
  apply (erule subst)
  apply (simp only: results.select_convs)
  apply simp?
  done

lemma fld_rankine_power:
  assumes "run_simulation i = Inr r"
  shows "rankine_power r = max 0.0 (W_turb_rankine r - W_pump r)"
  using assms guards [OF assms]
  unfolding run_simulation_def Let_def working_flow_def Qin_total_def h4_uncorrected_def
    total_input_energy_def
  apply (simp only: if_False sum.inject)
  apply (erule subst)
  apply (simp only: results.select_convs)
  apply simp?
  done

lemma fld_total_power:
  assumes "run_simulation i = Inr r"
  shows "total_power r = brayton_power r + rankine_power r"
  using assms guards [OF assms]
  unfolding run_simulation_def Let_def working_flow_def Qin_total_def h4_uncorrected_def
    total_input_energy_def
  apply (simp only: if_False sum.inject)
  apply (erule subst)
  apply (simp only: results.select_convs)
  apply simp?
  done

lemma fld_fuel_consumption_kg_hr:
  assumes "run_simulation i = Inr r"
  shows "fuel_consumption_kg_hr r = (if LHV i * 1000 > 0 then Q_in_Brayton r / (LHV i * 1000) else 0) * 3600"
  using assms guards [OF assms]
  unfolding run_simulation_def Let_def working_flow_def Qin_total_def h4_uncorrected_def
    total_input_energy_def
  apply (simp only: if_False sum.inject)
  apply (erule subst)
  apply (simp only: results.select_convs)
  apply simp?
  done

subsection \<open>Mass split, example scenario and fuel consumption\<close>

text \<open>
  Claim C7. For every input of the domain the function returns, and the returned mass
  split adds up to the biomass flow: \<open>m_dry + m_moisture = m_biomass\<close>, with
  \<open>m_dry = m_biomass * (1 - MC)\<close> and \<open>m_moisture = m_biomass * MC\<close>.
\<close>

theorem mass_split:
  assumes "in_domain i"
  shows "\<exists>r. run_simulation i = Inr r \<and>
           m_dry r + m_moisture r = m_biomass i \<and>
           m_dry r = m_biomass i * (1 - MC i) \<and>
           m_moisture r = m_biomass i * MC i"
proof -
  from in_domain_returns [OF assms] obtain r where r: "run_simulation i = Inr r" ..
  have "m_dry r + m_moisture r = m_biomass i"
    by (simp add: fld_m_dry [OF r] fld_m_moisture [OF r] algebra_simps)
  with r fld_m_dry [OF r] fld_m_moisture [OF r] show ?thesis by blast
qed

text \<open>At the default inputs the two parts are 7.5 and 2.5 and add up to 10.\<close>

theorem mass_split_witness:
  "in_domain default_inputs \<and> \<not> isl (run_simulation default_inputs) \<and>
   m_dry (projr (run_simulation default_inputs)) = 7.5 \<and>
   m_moisture (projr (run_simulation default_inputs)) = 2.5 \<and>
   m_dry (projr (run_simulation default_inputs)) +
     m_moisture (projr (run_simulation default_inputs)) = m_biomass default_inputs"
  using mass_split [OF default_inputs_in_domain] default_inputs_in_domain
  by (auto simp: default_inputs_def)

text \<open>
  Claim C8. At the example inputs of the specification, which are the default inputs,
  the function returns a record with \<open>m_dry = 7.5\<close>, \<open>m_moisture = 2.5\<close>,
  \<open>h1 = 191.8\<close>, \<open>h3 = 2800.0\<close> and the compressor outlet temperature
  \<open>T2 = 298.15 + (298.15 * 8 powr (0.4 / 1.4) - 298.15) / 0.88\<close>.
\<close>

theorem example_scenario:
  "\<exists>r. run_simulation default_inputs = Inr r \<and>
     m_dry r = 7.5 \<and> m_moisture r = 2.5 \<and> h1 r = 191.8 \<and> h3 r = 2800.0 \<and>
     T2 r = 298.15 + (298.15 * 8 powr (0.4 / 1.4) - 298.15) / 0.88"
proof -
  from in_domain_returns [OF default_inputs_in_domain]
  obtain r where r: "run_simulation default_inputs = Inr r" ..
  have "m_dry r = 7.5" "m_moisture r = 2.5" "h1 r = 191.8" "h3 r = 2800.0"
    "T2 r = 298.15 + (298.15 * 8 powr (0.4 / 1.4) - 298.15) / 0.88"
    by (simp_all add: fld_m_dry [OF r] fld_m_moisture [OF r] fld_h1 [OF r] fld_h3 [OF r]
        fld_T2 [OF r] default_inputs_def)
  with r show ?thesis by blast
qed

text \<open>
  Claim C5. For every input of the domain the reported fuel consumption is the dry mass
  flow times 3600: the heating value in kJ/kg is positive there, so dividing the Brayton
  fuel heat input \<open>m_dry * LHV_kJ\<close> by it gives the dry mass flow back.
\<close>

theorem fuel_consumption_identity:
  assumes "in_domain i"
  shows "\<exists>r. run_simulation i = Inr r \<and> fuel_consumption_kg_hr r = m_dry r * 3600"
proof -
  from in_domain_returns [OF assms] obtain r where r: "run_simulation i = Inr r" ..
  have "0 < LHV i * 1000" using assms by (simp add: in_domain_def)
  then have "fuel_consumption_kg_hr r = m_dry r * 3600"
    by (simp add: fld_fuel_consumption_kg_hr [OF r] fld_Q_in_Brayton [OF r])
  with r show ?thesis by blast
qed

text \<open>At the default inputs the fuel consumption is 7.5 kg/s, that is 27000 kg/hr.\<close>

theorem fuel_consumption_identity_witness:
  "in_domain default_inputs \<and> \<not> isl (run_simulation default_inputs) \<and>
   fuel_consumption_kg_hr (projr (run_simulation default_inputs)) = 27000"
proof -
  from fuel_consumption_identity [OF default_inputs_in_domain] obtain r
    where r: "run_simulation default_inputs = Inr r"
      and f: "fuel_consumption_kg_hr r = m_dry r * 3600" by blast
  have "m_dry r = 7.5" by (simp add: fld_m_dry [OF r] default_inputs_def)
  with r f default_inputs_in_domain show ?thesis by simp
qed

subsection \<open>The Rankine enthalpies in the domain\<close>

lemma h1_bounds:
  assumes r: "run_simulation i = Inr r"
  shows "191.8 \<le> h1 r" "h1 r \<le> 300"
  by (simp_all add: fld_h1 [OF r])

text \<open>
  In the domain the isentropic drop is between 408 and 1484.4 kJ/kg and the boiler outlet
  enthalpy is at least 2200 kJ/kg, so the outlet enthalpy of line 272 is at least
  715.6 kJ/kg: the correction of lines 275 and 276 never applies there.
\<close>

lemma h4_uncorrected_in_domain:
  assumes d: "in_domain i" and r: "run_simulation i = Inr r"
  shows "715.6 \<le> h4_uncorrected i r" "h4_uncorrected i r < h3 r"
proof -
  define delta where "delta = 1200 * (1 - 0.03 * (boiler_p i - 8))"
  have bp: "0.1 \<le> boiler_p i" "boiler_p i \<le> 30" and bt: "200 \<le> boiler_T i"
    and et: "0.5 \<le> eta_turbine i" "eta_turbine i \<le> 1"
    using d by (simp_all add: in_domain_def)
  have "delta = 1488 - 36 * boiler_p i" by (simp add: delta_def field_simps)
  then have dl: "408 \<le> delta" "delta \<le> 1484.4" using bp by simp_all
  have "delta * eta_turbine i \<le> delta"
    using dl et by (intro mult_left_le) simp_all
  then have up: "delta * eta_turbine i \<le> 1484.4" using dl(2) by linarith
  have pos: "0 < delta * eta_turbine i" using dl et by (intro mult_pos_pos) simp_all
  have h3: "2200 \<le> h3 r" using bt by (simp add: fld_h3 [OF r])
  have eq: "h4_uncorrected i r = h3 r - delta * eta_turbine i"
    by (simp add: h4_uncorrected_def delta_def)
  show "715.6 \<le> h4_uncorrected i r" using eq up h3 by linarith
  show "h4_uncorrected i r < h3 r" using eq pos by linarith
qed

lemma h4_in_domain:
  assumes d: "in_domain i" and r: "run_simulation i = Inr r"
  shows "h4 r = h4_uncorrected i r"
  using h4_uncorrected_in_domain(1) [OF d r] h1_bounds(2) [OF r]
  by (simp add: fld_h4 [OF r])

lemma cold_boiler_returns: "\<exists>r. run_simulation cold_boiler_inputs = Inr r"
  by (rule run_simulation_returns) (simp_all add: cold_boiler_inputs_def default_inputs_def)

text \<open>
  Claim C2. For every input of the domain the function returns a turbine outlet enthalpy
  \<open>h4\<close> of at least \<open>h1 + 50\<close>. And for every input at which the function returns,
  inside the domain or not, an uncorrected outlet enthalpy below \<open>h1\<close> is replaced by
  \<open>h1 + 50\<close> exactly. The second part is stated for all inputs because no input of the
  domain has an uncorrected value below \<open>h1\<close> (lemma \<open>h4_uncorrected_in_domain\<close>).
\<close>

theorem rankine_outlet_enthalpy_margin:
  "(in_domain i \<longrightarrow> (\<exists>r. run_simulation i = Inr r \<and> h1 r + 50 \<le> h4 r)) \<and>
   (\<forall>r. run_simulation i = Inr r \<and> h4_uncorrected i r < h1 r \<longrightarrow> h4 r = h1 r + 50)"
proof (intro conjI impI allI)
  assume d: "in_domain i"
  from in_domain_returns [OF d] obtain r where r: "run_simulation i = Inr r" ..
  have "h1 r + 50 \<le> h4 r"
    using h4_uncorrected_in_domain(1) [OF d r] h1_bounds(2) [OF r] h4_in_domain [OF d r]
    by simp
  with r show "\<exists>r. run_simulation i = Inr r \<and> h1 r + 50 \<le> h4 r" by blast
next
  fix r assume "run_simulation i = Inr r \<and> h4_uncorrected i r < h1 r"
  then have r: "run_simulation i = Inr r" and lt: "h4_uncorrected i r < h1 r" by simp_all
  show "h4 r = h1 r + 50" using lt by (simp add: fld_h4 [OF r])
qed

text \<open>
  The first part at the default inputs; the second at the cold boiler, where the
  uncorrected outlet enthalpy is below \<open>h1 = 191.8\<close> and the function returns
  \<open>h4 = 241.8\<close>.
\<close>

theorem rankine_outlet_enthalpy_margin_witness:
  "in_domain default_inputs \<and> \<not> isl (run_simulation default_inputs) \<and>
   h1 (projr (run_simulation default_inputs)) + 50 \<le> h4 (projr (run_simulation default_inputs)) \<and>
   \<not> isl (run_simulation cold_boiler_inputs) \<and>
   h4_uncorrected cold_boiler_inputs (projr (run_simulation cold_boiler_inputs))
     < h1 (projr (run_simulation cold_boiler_inputs)) \<and>
   h4 (projr (run_simulation cold_boiler_inputs)) = 191.8 + 50"
proof -
  from cold_boiler_returns obtain r where r: "run_simulation cold_boiler_inputs = Inr r" ..
  have a: "h3 r = - 200" "h1 r = 191.8"
    by (simp_all add: fld_h3 [OF r] fld_h1 [OF r] cold_boiler_inputs_def default_inputs_def)
  have b: "h4_uncorrected cold_boiler_inputs r < h1 r"
    by (simp add: h4_uncorrected_def a cold_boiler_inputs_def default_inputs_def)
  from rankine_outlet_enthalpy_margin [of cold_boiler_inputs] r b
  have "h4 r = h1 r + 50" by blast
  moreover from rankine_outlet_enthalpy_margin [of default_inputs] default_inputs_in_domain
  obtain r' where "run_simulation default_inputs = Inr r'" "h1 r' + 50 \<le> h4 r'" by blast
  ultimately show ?thesis using r a b default_inputs_in_domain by simp
qed

subsection \<open>Useful work and power outputs\<close>

lemma default_inputs_rankine:
  assumes r: "run_simulation default_inputs = Inr r"
  shows "W_turb_rankine r = 2550" "W_pump r = 20.17475"
proof -
  have m: "m_moisture r = 2.5" by (simp add: fld_m_moisture [OF r] default_inputs_def)
  have h3: "h3 r = 2800" by (simp add: fld_h3 [OF r] default_inputs_def)
  have h1: "h1 r = 191.8" by (simp add: fld_h1 [OF r] default_inputs_def)
  have "h4_uncorrected default_inputs r = 1780"
    by (simp add: h4_uncorrected_def h3 default_inputs_def)
  then have h4: "h4 r = 1780" by (simp add: fld_h4 [OF r] h1)
  show "W_turb_rankine r = 2550" by (simp add: fld_W_turb_rankine [OF r] m h3 h4)
  show "W_pump r = 20.17475" by (simp add: fld_W_pump [OF r] m default_inputs_def)
qed

text \<open>
  Claim C1 says that the field \<open>useful_work\<close> is
  \<open>max 0 W_net_brayton + max 0 (W_turb_rankine - W_pump)\<close>. Line 288 of the source adds
  the Rankine turbine work without subtracting the pump work, while line 305 subtracts it
  for \<open>rankine_power\<close>. At the default inputs the function returns
  \<open>useful_work = max 0 W_net_brayton + 2550\<close>, where the net Rankine work is
  \<open>2529.82525\<close>: the field differs from the claimed value by the pump work
  \<open>20.17475\<close>.
\<close>

theorem useful_work_omits_pump_work:
  "\<not> isl (run_simulation default_inputs) \<and>
   useful_work (projr (run_simulation default_inputs)) =
     max 0 (W_net_brayton (projr (run_simulation default_inputs))) + 2550 \<and>
   max 0 (W_turb_rankine (projr (run_simulation default_inputs))
          - W_pump (projr (run_simulation default_inputs))) = 2529.82525 \<and>
   useful_work (projr (run_simulation default_inputs)) \<noteq>
     max 0 (W_net_brayton (projr (run_simulation default_inputs))) +
     max 0 (W_turb_rankine (projr (run_simulation default_inputs))
            - W_pump (projr (run_simulation default_inputs)))"
proof -
  from in_domain_returns [OF default_inputs_in_domain]
  obtain r where r: "run_simulation default_inputs = Inr r" ..
  have uw: "useful_work r = max 0 (W_net_brayton r) + 2550"
    by (simp add: fld_useful_work [OF r] default_inputs_rankine [OF r])
  show ?thesis using r uw default_inputs_rankine [OF r] by simp
qed

text \<open>
  Claim C10. For every input of the domain the function returns power fields with
  \<open>brayton_power \<ge> 0\<close>, \<open>rankine_power \<ge> 0\<close> and
  \<open>total_power = brayton_power + rankine_power\<close>, where \<open>rankine_power\<close> is
  \<open>max 0 (W_turb_rankine - W_pump)\<close>; and whenever the pump work is positive,
  \<open>total_power\<close> is strictly smaller than \<open>useful_work\<close>.
\<close>

theorem power_outputs:
  assumes d: "in_domain i"
  shows "\<exists>r. run_simulation i = Inr r \<and>
           0 \<le> brayton_power r \<and> 0 \<le> rankine_power r \<and>
           total_power r = brayton_power r + rankine_power r \<and>
           rankine_power r = max 0 (W_turb_rankine r - W_pump r) \<and>
           (0 < W_pump r \<longrightarrow> total_power r < useful_work r)"
proof -
  from in_domain_returns [OF d] obtain r where r: "run_simulation i = Inr r" ..
  have bp: "brayton_power r = max 0 (W_net_brayton r)"
    by (simp add: fld_brayton_power [OF r])
  have rk: "rankine_power r = max 0 (W_turb_rankine r - W_pump r)"
    by (simp add: fld_rankine_power [OF r])
  have uw: "useful_work r = max 0 (W_net_brayton r) + max 0 (W_turb_rankine r)"
    by (simp add: fld_useful_work [OF r])
  have lt: "total_power r < useful_work r" if p: "0 < W_pump r"
  proof -
    have m0: "0 \<le> m_moisture r"
      using d by (simp add: fld_m_moisture [OF r] in_domain_def)
    have "m_moisture r \<noteq> 0" using p by (auto simp: fld_W_pump [OF r])
    with m0 have m: "0 < m_moisture r" by simp
    have "0 < h3 r - h4 r"
      using h4_uncorrected_in_domain(2) [OF d r] h4_in_domain [OF d r] by simp
    with m have "0 < W_turb_rankine r" by (simp add: fld_W_turb_rankine [OF r])
    with p have "max 0 (W_turb_rankine r - W_pump r) < max 0 (W_turb_rankine r)" by simp
    then show ?thesis by (simp add: fld_total_power [OF r] bp rk uw)
  qed
  from r bp rk lt fld_total_power [OF r] show ?thesis by auto
qed

text \<open>
  At the default inputs the pump work is \<open>20.17475\<close>, the Rankine power is
  \<open>2529.82525\<close> and the total power is below the useful work.
\<close>

theorem power_outputs_witness:
  "in_domain default_inputs \<and> \<not> isl (run_simulation default_inputs) \<and>
   0 < W_pump (projr (run_simulation default_inputs)) \<and>
   rankine_power (projr (run_simulation default_inputs)) = 2529.82525 \<and>
   total_power (projr (run_simulation default_inputs))
     < useful_work (projr (run_simulation default_inputs))"
proof -
  from power_outputs [OF default_inputs_in_domain] obtain r
    where r: "run_simulation default_inputs = Inr r"
      and rk: "rankine_power r = max 0 (W_turb_rankine r - W_pump r)"
      and lt: "0 < W_pump r \<longrightarrow> total_power r < useful_work r" by blast
  have p: "0 < W_pump r" by (simp add: default_inputs_rankine [OF r])
  have "rankine_power r = 2529.82525" by (simp add: rk default_inputs_rankine [OF r])
  with r p lt default_inputs_in_domain show ?thesis by simp
qed

subsection \<open>The pressure factor of the gas cycle\<close>

text \<open>
  The factor \<open>rp powr (2 / 7)\<close> is irrational at the inputs of interest. It is bounded
  through seventh powers: \<open>y < x powr (2 / 7)\<close> when \<open>y ^ 7 < x ^ 2\<close>.
\<close>

lemma powr_two_sevenths_lower:
  fixes x y :: real
  assumes "0 < x" "0 < y" "y ^ 7 < x ^ 2"
  shows "y < x powr (2 / 7)"
proof -
  have "(y ^ 7) powr (1 / 7) < (x ^ 2) powr (1 / 7)"
    using assms by (intro powr_less_mono2) simp_all
  moreover have "(y ^ 7) powr (1 / 7) = y"
    using assms(2) by (simp add: powr_powr flip: powr_numeral)
  moreover have "(x ^ 2) powr (1 / 7) = x powr (2 / 7)"
    using assms(1) by (simp add: powr_powr flip: powr_numeral)
  ultimately show ?thesis by simp
qed

lemma powr_two_sevenths_upper:
  fixes x y :: real
  assumes "0 < x" "0 < y" "x ^ 2 < y ^ 7"
  shows "x powr (2 / 7) < y"
proof -
  have "(x ^ 2) powr (1 / 7) < (y ^ 7) powr (1 / 7)"
    using assms by (intro powr_less_mono2) simp_all
  moreover have "(y ^ 7) powr (1 / 7) = y"
    using assms(2) by (simp add: powr_powr flip: powr_numeral)
  moreover have "(x ^ 2) powr (1 / 7) = x powr (2 / 7)"
    using assms(1) by (simp add: powr_powr flip: powr_numeral)
  ultimately show ?thesis by simp
qed

lemma powr_inverse_ratio:
  fixes x :: real
  shows "(1 / x) powr (2 / 7) = 1 / x powr (2 / 7)"
  by (simp add: powr_divide)

lemma pressure_factor_eight:
  "1.8 < (8::real) powr (2 / 7)" "(8::real) powr (2 / 7) < 1.82"
  by (rule powr_two_sevenths_lower; simp add: power_divide)
     (rule powr_two_sevenths_upper; simp add: power_divide)

lemma pressure_factor_twenty:
  "2.35 < (20::real) powr (2 / 7)" "(20::real) powr (2 / 7) < 2.36"
  by (rule powr_two_sevenths_lower; simp add: power_divide)
     (rule powr_two_sevenths_upper; simp add: power_divide)

lemma pressure_factor_gt_one: "in_domain i \<Longrightarrow> 1 < rp i powr (2 / 7)"
  by (simp add: in_domain_def)

lemma recip_less_one: "1 < c \<Longrightarrow> 1 / c < (1::real)"
  by simp

lemma working_flow_ge_one: "1 \<le> working_flow r"
  by (simp add: working_flow_def)

subsection \<open>Brayton net work and the turbine inlet temperature, in exact arithmetic\<close>

text \<open>
  The net work is linear in \<open>T3\<close>: the turbine work is
  \<open>1.005 * working_flow * eta_turbine * (1 - 1 / rp powr (2 / 7)) * T3\<close> and the
  compressor work does not depend on \<open>T3\<close>.
\<close>

lemma W_net_brayton_linear:
  assumes r: "run_simulation i = Inr r"
  shows "W_net_brayton r =
    1.005 * working_flow r * (eta_turbine i * (1 - 1 / rp i powr (2 / 7))) * T3 i - W_comp r"
  by (simp add: fld_W_net_brayton [OF r] fld_W_turb_brayton [OF r] fld_T4 [OF r]
      powr_inverse_ratio algebra_simps)

text \<open>
  Claim C6 is about the order of two results of the program, which are doubles: each of
  the operations of lines 242 to 248 rounds, so two turbine inlet temperatures a few units
  in the last place apart need not give two different net works, let alone ordered ones.
  Rounding is not part of this model, so the claim is not stated here. What the formulas
  give in exact arithmetic is the lemma below: for two inputs of the domain that differ
  only in \<open>T3\<close>, the exact net work is strictly larger at the larger \<open>T3\<close>. It says
  nothing of pairs that the rounding of the program does not separate.
\<close>

lemma exact_net_work_increasing:
  assumes d: "in_domain i" and d': "in_domain (i\<lparr>T3 := t\<rparr>)" and lt: "T3 i < t"
  shows "\<exists>r r'. run_simulation i = Inr r \<and> run_simulation (i\<lparr>T3 := t\<rparr>) = Inr r' \<and>
           W_net_brayton r < W_net_brayton r'"
proof -
  from in_domain_returns [OF d] obtain r where r: "run_simulation i = Inr r" ..
  from in_domain_returns [OF d'] obtain r'
    where r': "run_simulation (i\<lparr>T3 := t\<rparr>) = Inr r'" ..
  have md: "m_dry r' = m_dry r" by (simp add: fld_m_dry [OF r] fld_m_dry [OF r'])
  then have wf: "working_flow r' = working_flow r" by (simp add: working_flow_def)
  have "T2 r' = T2 r" by (simp add: fld_T2 [OF r] fld_T2 [OF r'])
  with wf have wc: "W_comp r' = W_comp r"
    by (simp add: fld_W_comp [OF r] fld_W_comp [OF r'])
  define k where
    "k = 1.005 * working_flow r * (eta_turbine i * (1 - 1 / rp i powr (2 / 7)))"
  have "1 / rp i powr (2 / 7) < 1"
    using pressure_factor_gt_one [OF d] by (rule recip_less_one)
  moreover have "0 < eta_turbine i" using d by (simp add: in_domain_def)
  moreover have "0 < working_flow r" using working_flow_ge_one [of r] by simp
  ultimately have k: "0 < k" by (simp add: k_def)
  have "W_net_brayton r = k * T3 i - W_comp r"
    by (simp add: W_net_brayton_linear [OF r] k_def)
  moreover have "W_net_brayton r' = k * t - W_comp r"
    by (simp add: W_net_brayton_linear [OF r'] k_def wf wc)
  moreover have "k * T3 i < k * t" using k lt by simp
  ultimately have "W_net_brayton r < W_net_brayton r'" by simp
  with r r' show ?thesis by blast
qed

text \<open>The default inputs, and the default inputs with \<open>T3\<close> raised from 1200 to 1300.\<close>

lemma exact_net_work_increasing_default:
  "in_domain default_inputs \<and> in_domain (default_inputs\<lparr>T3 := 1300\<rparr>) \<and>
   T3 default_inputs < 1300 \<and>
   \<not> isl (run_simulation default_inputs) \<and>
   \<not> isl (run_simulation (default_inputs\<lparr>T3 := 1300\<rparr>)) \<and>
   W_net_brayton (projr (run_simulation default_inputs))
     < W_net_brayton (projr (run_simulation (default_inputs\<lparr>T3 := 1300\<rparr>)))"
proof -
  have a: "in_domain (default_inputs\<lparr>T3 := 1300\<rparr>)"
    by (simp add: in_domain_def default_inputs_def)
  have b: "T3 default_inputs < 1300" by (simp add: default_inputs_def)
  from exact_net_work_increasing [OF default_inputs_in_domain a b]
  show ?thesis using default_inputs_in_domain a b by auto
qed

subsection \<open>The three efficiencies\<close>

text \<open>
  The Rankine efficiency is between 0 and 1 in the domain: the turbine drop is at least
  204 kJ/kg and the pump work at most 30.3 kJ/kg, and the drop is at most \<open>h3 - h1\<close>
  because the outlet enthalpy stays above \<open>h1\<close>.
\<close>

lemma eta_rankine_bounds:
  assumes d: "in_domain i" and r: "run_simulation i = Inr r"
  shows "0 \<le> eta_rankine r" "eta_rankine r \<le> 1"
proof -
  define wp where "wp = 0.00101 * (boiler_p i - cond_p i) * 1000"
  define D where "D = h3 r - h4 r"
  define delta where "delta = 1200 * (1 - 0.03 * (boiler_p i - 8))"
  have m0: "0 \<le> m_moisture r" using d by (simp add: fld_m_moisture [OF r] in_domain_def)
  have bp: "boiler_p i \<le> 30" and cp: "0.001 \<le> cond_p i" and et: "0.5 \<le> eta_turbine i"
    using d by (simp_all add: in_domain_def)
  have wp: "wp \<le> 30.3" using bp cp by (simp add: wp_def)
  have h4: "h4 r = h4_uncorrected i r" by (rule h4_in_domain [OF d r])
  have low: "715.6 \<le> h4 r" using h4_uncorrected_in_domain(1) [OF d r] h4 by simp
  have h1: "h1 r \<le> 300" by (rule h1_bounds(2) [OF r])
  have h2: "h2 r = h1 r + wp" by (simp add: fld_h2 [OF r] wp_def)
  have "delta = 1488 - 36 * boiler_p i" by (simp add: delta_def field_simps)
  then have dl: "408 \<le> delta" using bp by simp
  have "delta * 0.5 \<le> delta * eta_turbine i"
    using dl et by (intro mult_left_mono) simp_all
  then have "204 \<le> delta * eta_turbine i" using dl by linarith
  moreover have "D = delta * eta_turbine i"
    by (simp add: D_def h4 h4_uncorrected_def delta_def)
  ultimately have D: "204 \<le> D" by simp
  have Q: "Q_in_Rankine r = m_moisture r * (h3 r - h2 r)" by (rule fld_Q_in_Rankine [OF r])
  have num: "W_turb_rankine r - W_pump r = m_moisture r * (D - wp)"
    by (simp add: fld_W_turb_rankine [OF r] fld_W_pump [OF r] D_def wp_def algebra_simps)
  have n0: "0 \<le> W_turb_rankine r - W_pump r"
    unfolding num using m0 D wp by (intro mult_nonneg_nonneg) simp_all
  have "D - wp \<le> h3 r - h2 r" using low h1 by (simp add: D_def h2)
  then have le: "W_turb_rankine r - W_pump r \<le> Q_in_Rankine r"
    unfolding num Q using m0 by (rule mult_left_mono)
  show "0 \<le> eta_rankine r" using n0 by (simp add: fld_eta_rankine [OF r])
  show "eta_rankine r \<le> 1" using le by (simp add: fld_eta_rankine [OF r])
qed

text \<open>
  The Brayton efficiency is at most 1 in the domain. When the heat input is positive, the
  turbine inlet is hotter than the compressor outlet, which is at least
  \<open>298.15 * rp powr (2 / 7)\<close>; so the isentropic turbine outlet is above 298.15 K and
  the turbine work is below \<open>1.005 * working_flow * (T3 - 298.15)\<close>, which is the heat
  input plus the compressor work.
\<close>

lemma eta_brayton_le_one:
  assumes d: "in_domain i" and r: "run_simulation i = Inr r"
  shows "eta_brayton r \<le> 1"
proof (cases "0 < Qin_total i r")
  case False
  then show ?thesis by (simp add: fld_eta_brayton [OF r])
next
  case True
  define c where "c = rp i powr (2 / 7)"
  define w where "w = 1.005 * working_flow r"
  define g where "g = 298.15 * c - 298.15"
  have c: "1 < c" unfolding c_def by (rule pressure_factor_gt_one [OF d])
  have w: "0 < w" using working_flow_ge_one [of r] by (simp add: w_def)
  have ec: "0 < eta_comp i" "eta_comp i \<le> 1"
    and et: "0 \<le> eta_turbine i" "eta_turbine i \<le> 1"
    using d by (simp_all add: in_domain_def)
  have T2: "T2 r = 298.15 + g / eta_comp i"
    by (simp add: fld_T2 [OF r] c_def g_def)
  have "0 \<le> g" using c by (simp add: g_def)
  then have "g * eta_comp i \<le> g" using ec(2) by (rule mult_left_le [rotated])
  then have "g \<le> g / eta_comp i" using ec(1) by (simp add: pos_le_divide_eq)
  then have T2ge: "298.15 * c \<le> T2 r" unfolding T2 g_def by linarith
  have Q: "Qin_total i r = w * (T3 i - T2 r)" by (simp add: Qin_total_def w_def)
  have "0 < T3 i - T2 r" using True w unfolding Q by (simp add: zero_less_mult_iff)
  then have T3: "298.15 * c < T3 i" using T2ge by simp
  have "298.15 < T3 i / c" using T3 c by (simp add: pos_less_divide_eq)
  then have drop: "0 \<le> T3 i - T3 i / c" "T3 i - T3 i / c \<le> T3 i - 298.15"
    using c T3 by (simp_all add: pos_divide_le_eq)
  have "eta_turbine i * (T3 i - T3 i / c) \<le> T3 i - T3 i / c"
    using drop(1) et by (intro mult_left_le_one_le)
  then have e: "eta_turbine i * (T3 i - T3 i / c) \<le> T3 i - 298.15"
    using drop(2) by (rule order_trans)
  have T4: "T3 i - T4 r = eta_turbine i * (T3 i - T3 i / c)"
    by (simp add: fld_T4 [OF r] powr_inverse_ratio c_def)
  have Wt: "W_turb_brayton r = w * (T3 i - T4 r)"
    by (simp add: fld_W_turb_brayton [OF r] w_def)
  have Wc: "W_comp r = w * (T2 r - 298.15)"
    by (simp add: fld_W_comp [OF r] w_def)
  have W: "W_net_brayton r = w * ((T3 i - T4 r) - (T2 r - 298.15))"
    unfolding fld_W_net_brayton [OF r] Wt Wc by (simp only: right_diff_distrib)
  have "(T3 i - T4 r) - (T2 r - 298.15) \<le> T3 i - T2 r" using e unfolding T4 by linarith
  then have "W_net_brayton r \<le> Qin_total i r"
    unfolding W Q using w by (intro mult_left_mono) simp_all
  with True show ?thesis by (simp add: fld_eta_brayton [OF r])
qed

lemma eta_combined_ge_zero: "run_simulation i = Inr r \<Longrightarrow> 0 \<le> eta_combined r"
  by (simp add: fld_eta_combined fld_useful_work)

text \<open>
  With the default gas cycle and a working flow at its floor of 1 kg/s (line 232), the
  Brayton net work is more than 176 kW, whatever the fuel flow is.
\<close>

lemma unit_flow_net_work:
  assumes r: "run_simulation i = Inr r"
    and i: "rp i = 8" "eta_comp i = 0.88" "eta_turbine i = 0.85" "T3 i = 1200"
    and wf: "working_flow r = 1"
  shows "176 < W_net_brayton r"
proof -
  define c where "c = (8::real) powr (2 / 7)"
  define d where "d = 1 / c"
  have c: "1.8 < c" "c < 1.82" unfolding c_def by (rule pressure_factor_eight)+
  have "1 / c < 1 / 1.8" using c(1) by (intro divide_strict_left_mono) simp_all
  then have d: "d < 5 / 9" by (simp add: d_def)
  have T2: "T2 r = 298.15 + (298.15 * c - 298.15) / 0.88"
    by (simp add: fld_T2 [OF r] c_def i)
  have T4: "T4 r = 1200 - 0.85 * (1200 - 1200 * d)"
    by (simp add: fld_T4 [OF r] c_def d_def powr_inverse_ratio i)
  have W: "W_net_brayton r = 1.005 * (1200 - T4 r) - 1.005 * (T2 r - 298.15)"
    by (simp add: fld_W_net_brayton [OF r] fld_W_turb_brayton [OF r] fld_W_comp [OF r] wf i)
  show ?thesis unfolding W T2 T4 using c(2) d by (simp add: field_simps)
qed

text \<open>
  At \<open>min_flow_inputs\<close> the fuel of 0.0075 kg/s carries 135 kW and the steam side
  6.5 kW, against a useful work of more than 176 kW: the combined efficiency is above 1.
\<close>

lemma min_flow_combined:
  assumes r: "run_simulation min_flow_inputs = Inr r"
  shows "1 < eta_combined r"
proof -
  have wf: "working_flow r = 1"
    by (simp add: working_flow_def fld_m_dry [OF r] min_flow_inputs_def default_inputs_def)
  have W: "176 < W_net_brayton r"
    by (rule unit_flow_net_work [OF r _ _ _ _ wf])
      (simp_all add: min_flow_inputs_def default_inputs_def)
  have Qb: "Q_in_Brayton r = 135"
    by (simp add: fld_Q_in_Brayton [OF r] fld_m_dry [OF r] min_flow_inputs_def
        default_inputs_def)
  have m: "m_moisture r = 0.0025"
    by (simp add: fld_m_moisture [OF r] min_flow_inputs_def default_inputs_def)
  have h: "h3 r = 2800" "h2 r = 199.8699"
    by (simp_all add: fld_h3 [OF r] fld_h2 [OF r] fld_h1 [OF r] min_flow_inputs_def
        default_inputs_def)
  have Qr: "Q_in_Rankine r = 6.50032525" by (simp add: fld_Q_in_Rankine [OF r] m h)
  have tot: "total_input_energy r = 141.50032525"
    by (simp add: total_input_energy_def Qb Qr)
  have "176 < useful_work r" using W by (simp add: fld_useful_work [OF r] max_def)
  then show ?thesis by (simp add: fld_eta_combined [OF r] tot)
qed

text \<open>
  At \<open>tiny_flow_inputs\<close> the total input energy is \<open>14150.032525 * 2 ^ - 1040\<close> kW,
  which is positive, so the guard of line 289 lets the division through; the quotient is
  more than \<open>176 * 2 ^ 1040 / 14150.032525\<close>, which is more than \<open>2 ^ 1024\<close>. Every
  finite double is below \<open>2 ^ 1024\<close>.
\<close>

lemma tiny_flow_combined:
  assumes r: "run_simulation tiny_flow_inputs = Inr r"
  shows "2 ^ 1024 < eta_combined r"
proof -
  define Q where "Q = (2::real) ^ 1024"
  define m where "m = 1 / (65536 * Q)"
  have Q: "1 \<le> Q" unfolding Q_def by (rule one_le_power) simp
  have m: "0 < m" using Q by (simp add: m_def)
  have mb: "m_biomass tiny_flow_inputs = m"
    unfolding m_def Q_def by (rule tiny_flow_fields)
  note f = tiny_flow_fields(2-)
  have md: "m_dry r = 0.75 * m" by (simp add: fld_m_dry [OF r] mb f)
  have "20 * (0.75 * m) \<le> 1" using Q by (simp add: m_def field_simps)
  then have wf: "working_flow r = 1" by (simp add: working_flow_def md max_def)
  have W: "176 < W_net_brayton r"
    by (rule unit_flow_net_work [OF r _ _ _ _ wf]) (simp_all add: f)
  have Qb: "Q_in_Brayton r = 13500 * m" by (simp add: fld_Q_in_Brayton [OF r] md f)
  have mm: "m_moisture r = 0.25 * m" by (simp add: fld_m_moisture [OF r] mb f)
  have h: "h3 r = 2800" "h2 r = 199.8699"
    by (simp_all add: fld_h3 [OF r] fld_h2 [OF r] fld_h1 [OF r] f)
  have Qr: "Q_in_Rankine r = 650.032525 * m" by (simp add: fld_Q_in_Rankine [OF r] mm h)
  have tot: "total_input_energy r = 14150.032525 * m"
    by (simp add: total_input_energy_def Qb Qr algebra_simps)
  have pos: "0 < total_input_energy r" unfolding tot using m by simp
  have "Q * (14150.032525 * m) < 176" using Q by (simp add: m_def field_simps)
  then have "Q * total_input_energy r < 176" by (simp only: tot)
  moreover have "176 < useful_work r"
    using W by (simp add: fld_useful_work [OF r] max_def)
  ultimately have "Q * total_input_energy r < useful_work r" by (rule less_trans)
  then have "Q < useful_work r / total_input_energy r"
    using pos by (simp only: pos_less_divide_eq)
  then have "Q < eta_combined r" using pos by (simp only: fld_eta_combined [OF r] if_True)
  then show ?thesis unfolding Q_def .
qed

text \<open>
  At \<open>hot_compressor_inputs\<close> the compressor outlet is between 1103 K and 1110 K, below
  the turbine inlet of 1200 K, so the heat input is positive; the turbine work per kg is
  below the compressor work per kg, so the net work and the Brayton efficiency are
  negative.
\<close>

lemma hot_compressor_eta_brayton:
  assumes r: "run_simulation hot_compressor_inputs = Inr r"
  shows "eta_brayton r < 0"
proof -
  define c where "c = (20::real) powr (2 / 7)"
  define d where "d = 1 / c"
  have c: "2.35 < c" "c < 2.36" unfolding c_def by (rule pressure_factor_twenty)+
  have "1 / 2.36 < 1 / c" using c by (intro divide_strict_left_mono) simp_all
  then have d: "25 / 59 < d" by (simp add: d_def)
  have wf: "working_flow r = 150"
    by (simp add: working_flow_def fld_m_dry [OF r] hot_compressor_inputs_def
        default_inputs_def)
  have T2: "T2 r = 298.15 + (298.15 * c - 298.15) * 2"
    by (simp add: fld_T2 [OF r] c_def hot_compressor_inputs_def default_inputs_def)
  have T4: "T4 r = 1200 - 0.5 * (1200 - 1200 * d)"
    by (simp add: fld_T4 [OF r] c_def d_def powr_inverse_ratio hot_compressor_inputs_def
        default_inputs_def)
  have Q: "Qin_total hot_compressor_inputs r = 150.75 * (1200 - T2 r)"
    by (simp add: Qin_total_def wf hot_compressor_inputs_def default_inputs_def)
  have Wt: "W_turb_brayton r = 150.75 * (1200 - T4 r)"
    by (simp add: fld_W_turb_brayton [OF r] wf hot_compressor_inputs_def default_inputs_def)
  have Wc: "W_comp r = 150.75 * (T2 r - 298.15)"
    by (simp add: fld_W_comp [OF r] wf)
  have W: "W_net_brayton r = 150.75 * ((1200 - T4 r) - (T2 r - 298.15))"
    unfolding fld_W_net_brayton [OF r] Wt Wc by (simp only: right_diff_distrib)
  have "0 < 1200 - T2 r" unfolding T2 using c(2) by simp
  then have Qpos: "0 < Qin_total hot_compressor_inputs r" unfolding Q by simp
  have "(1200 - T4 r) - (T2 r - 298.15) < 0" unfolding T2 T4 using c(1) d by simp
  then have Wneg: "W_net_brayton r < 0" unfolding W by (simp add: mult_pos_neg)
  show ?thesis using Qpos Wneg by (simp add: fld_eta_brayton [OF r] divide_neg_pos)
qed

text \<open>
  Claim C9. For every input of the domain the function returns a combined efficiency that
  is not negative.
\<close>

theorem combined_efficiency_nonneg:
  assumes "in_domain i"
  shows "\<exists>r. run_simulation i = Inr r \<and> 0 \<le> eta_combined r"
proof -
  from in_domain_returns [OF assms] obtain r where r: "run_simulation i = Inr r" ..
  with eta_combined_ge_zero [OF r] show ?thesis by blast
qed

text \<open>An operating point of the domain where the Brayton efficiency is negative.\<close>

theorem combined_efficiency_nonneg_witness:
  "in_domain hot_compressor_inputs \<and> \<not> isl (run_simulation hot_compressor_inputs) \<and>
   eta_brayton (projr (run_simulation hot_compressor_inputs)) < 0 \<and>
   0 \<le> eta_combined (projr (run_simulation hot_compressor_inputs))"
proof -
  have d: "in_domain hot_compressor_inputs"
    by (rule sidebar_range_in_domain [OF hot_compressor_sidebar_range])
  from combined_efficiency_nonneg [OF d] obtain r
    where r: "run_simulation hot_compressor_inputs = Inr r" and e: "0 \<le> eta_combined r"
    by blast
  from d r e hot_compressor_eta_brayton [OF r] show ?thesis by simp
qed

subsection \<open>Totality and the guarded divisions\<close>

lemma zero_denominator_returns: "\<exists>r. run_simulation zero_denominator_inputs = Inr r"
  by (rule run_simulation_returns) (simp_all add: zero_denominator_inputs_def)

text \<open>
  Claim C4. For every input of the domain the function returns: no exception is raised.
  And for every input at which it returns, inside the domain or not, each of the four
  guarded ratios is exactly 0 when its denominator is not positive: the Brayton
  efficiency for \<open>Qin_total\<close>, the Rankine efficiency for \<open>Q_in_Rankine\<close>, the
  combined efficiency for \<open>total_input_energy\<close>, and the fuel consumption for the
  heating value in kJ/kg. The guards are stated for all inputs because the last two
  denominators are positive at every input of the domain.
\<close>

theorem division_guards:
  "(in_domain i \<longrightarrow> (\<exists>r. run_simulation i = Inr r)) \<and>
   (\<forall>r. run_simulation i = Inr r \<longrightarrow>
      (Qin_total i r \<le> 0 \<longrightarrow> eta_brayton r = 0) \<and>
      (Q_in_Rankine r \<le> 0 \<longrightarrow> eta_rankine r = 0) \<and>
      (total_input_energy r \<le> 0 \<longrightarrow> eta_combined r = 0) \<and>
      (LHV i * 1000 \<le> 0 \<longrightarrow> fuel_consumption_kg_hr r = 0))"
  by (auto simp: in_domain_returns fld_eta_brayton fld_eta_rankine fld_eta_combined
      fld_fuel_consumption_kg_hr)

text \<open>
  Totality at the default inputs; the guards at \<open>zero_denominator_inputs\<close>, where the
  four denominators are all non-positive and the four ratios are 0.
\<close>

theorem division_guards_witness:
  "in_domain default_inputs \<and> \<not> isl (run_simulation default_inputs) \<and>
   \<not> isl (run_simulation zero_denominator_inputs) \<and>
   Qin_total zero_denominator_inputs (projr (run_simulation zero_denominator_inputs)) \<le> 0 \<and>
   Q_in_Rankine (projr (run_simulation zero_denominator_inputs)) \<le> 0 \<and>
   total_input_energy (projr (run_simulation zero_denominator_inputs)) \<le> 0 \<and>
   LHV zero_denominator_inputs * 1000 \<le> 0 \<and>
   eta_brayton (projr (run_simulation zero_denominator_inputs)) = 0 \<and>
   eta_rankine (projr (run_simulation zero_denominator_inputs)) = 0 \<and>
   eta_combined (projr (run_simulation zero_denominator_inputs)) = 0 \<and>
   fuel_consumption_kg_hr (projr (run_simulation zero_denominator_inputs)) = 0"
proof -
  from zero_denominator_returns
  obtain r where r: "run_simulation zero_denominator_inputs = Inr r" ..
  have m: "m_dry r = 0" "m_moisture r = 0"
    by (simp_all add: fld_m_dry [OF r] fld_m_moisture [OF r] zero_denominator_inputs_def)
  have T2: "T2 r = 298.15" by (simp add: fld_T2 [OF r] zero_denominator_inputs_def)
  have a: "Qin_total zero_denominator_inputs r \<le> 0"
    by (simp add: Qin_total_def working_flow_def m T2 zero_denominator_inputs_def)
  have b: "Q_in_Rankine r \<le> 0" by (simp add: fld_Q_in_Rankine [OF r] m)
  have c: "total_input_energy r \<le> 0"
    by (simp add: total_input_energy_def fld_Q_in_Rankine [OF r] fld_Q_in_Brayton [OF r] m)
  have e: "LHV zero_denominator_inputs * 1000 \<le> 0"
    by (simp add: zero_denominator_inputs_def)
  from division_guards [of zero_denominator_inputs] r a b c e
  have "eta_brayton r = 0 \<and> eta_rankine r = 0 \<and> eta_combined r = 0 \<and>
        fuel_consumption_kg_hr r = 0" by blast
  moreover from division_guards [of default_inputs] default_inputs_in_domain
  have "\<exists>r. run_simulation default_inputs = Inr r" by blast
  ultimately show ?thesis using r a b c e default_inputs_in_domain by auto
qed

subsection \<open>The efficiencies: guards, bounds and what is not bounded\<close>

text \<open>
  Claim C3, as the code has it. For every input at which the function returns, each of
  the three efficiencies is exactly 0 when its guarded denominator is not positive, and
  is otherwise the quotient of its numerator by that positive denominator: the Brayton
  efficiency for \<open>Qin_total\<close>, the Rankine efficiency for \<open>Q_in_Rankine\<close>, the combined
  efficiency for \<open>total_input_energy\<close>. For every input of the domain the function
  returns, the Rankine efficiency is between 0 and 1, the Brayton efficiency is at most 1
  and the combined efficiency is not negative. The bounds are bounds on the exact
  quotients. No lower bound holds for the Brayton efficiency and no upper bound for the
  combined efficiency (see the counterexample below).
\<close>

theorem efficiencies_guarded_and_bounded:
  "(in_domain i \<longrightarrow>
      (\<exists>r. run_simulation i = Inr r \<and>
           0 \<le> eta_rankine r \<and> eta_rankine r \<le> 1 \<and>
           eta_brayton r \<le> 1 \<and> 0 \<le> eta_combined r)) \<and>
   (\<forall>r. run_simulation i = Inr r \<longrightarrow>
      eta_brayton r =
        (if 0 < Qin_total i r then W_net_brayton r / Qin_total i r else 0) \<and>
      eta_rankine r =
        (if 0 < Q_in_Rankine r then (W_turb_rankine r - W_pump r) / Q_in_Rankine r else 0) \<and>
      eta_combined r =
        (if 0 < total_input_energy r then useful_work r / total_input_energy r else 0))"
proof (intro conjI impI allI)
  assume d: "in_domain i"
  from in_domain_returns [OF d] obtain r where r: "run_simulation i = Inr r" ..
  from r eta_rankine_bounds [OF d r] eta_brayton_le_one [OF d r] eta_combined_ge_zero [OF r]
  show "\<exists>r. run_simulation i = Inr r \<and> 0 \<le> eta_rankine r \<and> eta_rankine r \<le> 1 \<and>
          eta_brayton r \<le> 1 \<and> 0 \<le> eta_combined r"
    by blast
next
  fix r assume r: "run_simulation i = Inr r"
  show "eta_brayton r =
      (if 0 < Qin_total i r then W_net_brayton r / Qin_total i r else 0)"
    by (simp add: fld_eta_brayton [OF r])
  show "eta_rankine r =
      (if 0 < Q_in_Rankine r then (W_turb_rankine r - W_pump r) / Q_in_Rankine r else 0)"
    by (simp add: fld_eta_rankine [OF r])
  show "eta_combined r =
      (if 0 < total_input_energy r then useful_work r / total_input_energy r else 0)"
    by (simp add: fld_eta_combined [OF r])
qed

text \<open>
  In the domain, at \<open>hot_compressor_inputs\<close>: the heat input is positive, the Brayton
  efficiency is the quotient and is negative, and the other bounds hold. Outside the
  domain, at \<open>zero_denominator_inputs\<close>: the three denominators are not positive and the
  three efficiencies are 0.
\<close>

theorem efficiencies_guarded_and_bounded_witness:
  "in_domain hot_compressor_inputs \<and> \<not> isl (run_simulation hot_compressor_inputs) \<and>
   0 < Qin_total hot_compressor_inputs (projr (run_simulation hot_compressor_inputs)) \<and>
   eta_brayton (projr (run_simulation hot_compressor_inputs)) =
     W_net_brayton (projr (run_simulation hot_compressor_inputs)) /
     Qin_total hot_compressor_inputs (projr (run_simulation hot_compressor_inputs)) \<and>
   eta_brayton (projr (run_simulation hot_compressor_inputs)) < 0 \<and>
   0 \<le> eta_rankine (projr (run_simulation hot_compressor_inputs)) \<and>
   eta_rankine (projr (run_simulation hot_compressor_inputs)) \<le> 1 \<and>
   0 \<le> eta_combined (projr (run_simulation hot_compressor_inputs)) \<and>
   \<not> isl (run_simulation zero_denominator_inputs) \<and>
   \<not> 0 < Qin_total zero_denominator_inputs (projr (run_simulation zero_denominator_inputs)) \<and>
   \<not> 0 < Q_in_Rankine (projr (run_simulation zero_denominator_inputs)) \<and>
   \<not> 0 < total_input_energy (projr (run_simulation zero_denominator_inputs)) \<and>
   eta_brayton (projr (run_simulation zero_denominator_inputs)) = 0 \<and>
   eta_rankine (projr (run_simulation zero_denominator_inputs)) = 0 \<and>
   eta_combined (projr (run_simulation zero_denominator_inputs)) = 0"
proof -
  have d: "in_domain hot_compressor_inputs"
    by (rule sidebar_range_in_domain [OF hot_compressor_sidebar_range])
  note hot = efficiencies_guarded_and_bounded [of hot_compressor_inputs]
  from hot d obtain r where r: "run_simulation hot_compressor_inputs = Inr r"
    and b: "0 \<le> eta_rankine r" "eta_rankine r \<le> 1" "0 \<le> eta_combined r" by blast
  from hot r have e: "eta_brayton r =
    (if 0 < Qin_total hot_compressor_inputs r
     then W_net_brayton r / Qin_total hot_compressor_inputs r else 0)" by blast
  have n: "eta_brayton r < 0" by (rule hot_compressor_eta_brayton [OF r])
  have q: "0 < Qin_total hot_compressor_inputs r"
    using e n by (cases "0 < Qin_total hot_compressor_inputs r") simp_all
  have e': "eta_brayton r = W_net_brayton r / Qin_total hot_compressor_inputs r"
    using e q by simp
  from zero_denominator_returns
  obtain z where z: "run_simulation zero_denominator_inputs = Inr z" ..
  have m: "m_dry z = 0" "m_moisture z = 0"
    by (simp_all add: fld_m_dry [OF z] fld_m_moisture [OF z] zero_denominator_inputs_def)
  have T2: "T2 z = 298.15" by (simp add: fld_T2 [OF z] zero_denominator_inputs_def)
  have a: "\<not> 0 < Qin_total zero_denominator_inputs z"
    by (simp add: Qin_total_def working_flow_def m T2 zero_denominator_inputs_def)
  have b': "\<not> 0 < Q_in_Rankine z" by (simp add: fld_Q_in_Rankine [OF z] m)
  have c: "\<not> 0 < total_input_energy z"
    by (simp add: total_input_energy_def fld_Q_in_Rankine [OF z] fld_Q_in_Brayton [OF z] m)
  from efficiencies_guarded_and_bounded [of zero_denominator_inputs] z a b' c
  have "eta_brayton z = 0 \<and> eta_rankine z = 0 \<and> eta_combined z = 0" by simp
  then show ?thesis using d r b e' n q z a b' c by simp
qed

text \<open>
  Counterexample to claim C3 as stated. At \<open>min_flow_inputs\<close>, in the ranges of the
  widgets, the combined efficiency is above 1. At \<open>hot_compressor_inputs\<close>, in the ranges
  of the widgets, the Brayton efficiency is negative. At \<open>tiny_flow_inputs\<close>, in the
  documented domain, the quotient of line 289 is above \<open>2 ^ 1024\<close>, and every finite
  double is below \<open>2 ^ 1024\<close>. None of the three values is 0, and none is in the range
  of an efficiency.
\<close>

theorem efficiencies_leave_sane_range:
  "sidebar_range min_flow_inputs \<and> \<not> isl (run_simulation min_flow_inputs) \<and>
   1 < eta_combined (projr (run_simulation min_flow_inputs)) \<and>
   sidebar_range hot_compressor_inputs \<and> \<not> isl (run_simulation hot_compressor_inputs) \<and>
   eta_brayton (projr (run_simulation hot_compressor_inputs)) < 0 \<and>
   in_domain tiny_flow_inputs \<and> \<not> isl (run_simulation tiny_flow_inputs) \<and>
   2 ^ 1024 < eta_combined (projr (run_simulation tiny_flow_inputs))"
proof -
  have d: "in_domain min_flow_inputs"
    by (rule sidebar_range_in_domain [OF min_flow_sidebar_range])
  from in_domain_returns [OF d] obtain r where r: "run_simulation min_flow_inputs = Inr r" ..
  have 1: "\<not> isl (run_simulation min_flow_inputs) \<and>
           1 < eta_combined (projr (run_simulation min_flow_inputs))"
    using min_flow_combined [OF r] by (simp add: r)
  have d': "in_domain hot_compressor_inputs"
    by (rule sidebar_range_in_domain [OF hot_compressor_sidebar_range])
  from in_domain_returns [OF d'] obtain h
    where h: "run_simulation hot_compressor_inputs = Inr h" ..
  have 2: "\<not> isl (run_simulation hot_compressor_inputs) \<and>
           eta_brayton (projr (run_simulation hot_compressor_inputs)) < 0"
    using hot_compressor_eta_brayton [OF h] by (simp add: h)
  from in_domain_returns [OF tiny_flow_in_domain] obtain t
    where t: "run_simulation tiny_flow_inputs = Inr t" ..
  have "projr (run_simulation tiny_flow_inputs) = t"
    "\<not> isl (run_simulation tiny_flow_inputs)"
    by (simp_all only: t sum.sel sum.disc not_False_eq_True)
  with tiny_flow_combined [OF t]
  have 3: "\<not> isl (run_simulation tiny_flow_inputs) \<and>
           2 ^ 1024 < eta_combined (projr (run_simulation tiny_flow_inputs))"
    by (simp only: simp_thms)
  from 1 2 3 min_flow_sidebar_range hot_compressor_sidebar_range tiny_flow_in_domain
  show ?thesis by blast
qed

end
